theory Spec2Isabelle
  imports Main
begin

section \<open>Python values\<close>

text \<open>
  The values that flow through the wrapper: what a caller passes as an argument, what a
  parameter mapping holds and what the deserialized response of \<^verbatim>\<open>client.request\<close>
  can be. A Python \<^verbatim>\<open>str\<close> is a \<open>string\<close> whose characters are code points below 256;
  a \<^verbatim>\<open>dict\<close> is an association list in insertion order with string keys. Floats are
  not modelled.
\<close>

datatype pyval =
    PNone
  | PBool bool
  | PInt int
  | PStr string
  | PList "pyval list"
  | PDict "(string \<times> pyval) list"

type_synonym pydict = "(string \<times> pyval) list"

text \<open>Python's truth value of an object, as \<^verbatim>\<open>if x:\<close> and \<^verbatim>\<open>not x\<close> test it.\<close>

fun truthy :: "pyval \<Rightarrow> bool" where
  "truthy PNone = False"
| "truthy (PBool b) = b"
| "truthy (PInt i) = (i \<noteq> 0)"
| "truthy (PStr s) = (s \<noteq> [])"
| "truthy (PList xs) = (xs \<noteq> [])"
| "truthy (PDict d) = (d \<noteq> [])"

subsection \<open>Dictionaries\<close>

text \<open>
  \<^verbatim>\<open>d[k] = v\<close>: an existing key keeps its position and takes the new value, a new key is
  appended. \<^verbatim>\<open>d.update(other)\<close> stores the entries of \<^verbatim>\<open>other\<close> one after the other.
\<close>

fun dict_set :: "string \<Rightarrow> pyval \<Rightarrow> pydict \<Rightarrow> pydict" where
  "dict_set k v [] = [(k, v)]"
| "dict_set k v ((k', v') # d) = (if k' = k then (k, v) # d else (k', v') # dict_set k v d)"

fun dict_update :: "pydict \<Rightarrow> pydict \<Rightarrow> pydict" where
  "dict_update d [] = d"
| "dict_update d ((k, v) # other) = dict_update (dict_set k v d) other"

definition dict_get :: "pydict \<Rightarrow> string \<Rightarrow> pyval option" where
  "dict_get d k = map_of d k"

definition dict_keys :: "pydict \<Rightarrow> string list" where
  "dict_keys d = map fst d"

subsection \<open>Formatting: \<^verbatim>\<open>str\<close>, \<^verbatim>\<open>repr\<close>, \<^verbatim>\<open>join\<close>\<close>

definition digit_char :: "nat \<Rightarrow> char" where
  "digit_char n = ''0123456789abcdef'' ! (n mod 16)"

fun nat_str :: "nat \<Rightarrow> string" where
  "nat_str n = (if n < 10 then [digit_char n] else nat_str (n div 10) @ [digit_char (n mod 10)])"

declare nat_str.simps [simp del]

definition int_str :: "int \<Rightarrow> string" where
  "int_str i = (if i < 0 then CHR ''-'' # nat_str (nat (- i)) else nat_str (nat i))"

definition hex2 :: "nat \<Rightarrow> string" where
  "hex2 n = [digit_char (n div 16), digit_char (n mod 16)]"

text \<open>
  \<^verbatim>\<open>repr\<close> of a string: single quotes, unless the string holds a single quote and no
  double quote; the quote and the backslash are escaped, tab, newline and carriage return
  have their letters, and the other code points that are not printable (below 256: the
  control characters, 0x7f to 0xa0, and 0xad) are written \<^verbatim>\<open>\xNN\<close>.
\<close>

definition repr_char :: "char \<Rightarrow> char \<Rightarrow> string" where
  "repr_char quote c =
     (let n = (of_char c :: nat) in
      if c = quote \<or> c = CHR 0x5C then [CHR 0x5C, c]
      else if n = 9 then [CHR 0x5C, CHR ''t'']
      else if n = 10 then [CHR 0x5C, CHR ''n'']
      else if n = 13 then [CHR 0x5C, CHR ''r'']
      else if n < 32 \<or> n = 127 then [CHR 0x5C, CHR ''x''] @ hex2 n
      else if n < 127 then [c]
      else if n \<le> 160 \<or> n = 173 then [CHR 0x5C, CHR ''x''] @ hex2 n
      else [c])"

definition repr_str :: "string \<Rightarrow> string" where
  "repr_str s =
     (let quote = (if CHR 0x27 \<in> set s \<and> CHR 0x22 \<notin> set s then CHR 0x22 else CHR 0x27)
      in [quote] @ concat (map (repr_char quote) s) @ [quote])"

text \<open>\<^verbatim>\<open>sep.join(parts)\<close>.\<close>

fun join :: "string \<Rightarrow> string list \<Rightarrow> string" where
  "join sep [] = []"
| "join sep [x] = x"
| "join sep (x # y # ys) = x @ sep @ join sep (y # ys)"

fun py_repr :: "pyval \<Rightarrow> string" where
  "py_repr PNone = ''None''"
| "py_repr (PBool b) = (if b then ''True'' else ''False'')"
| "py_repr (PInt i) = int_str i"
| "py_repr (PStr s) = repr_str s"
| "py_repr (PList xs) = ''['' @ join '', '' (map py_repr xs) @ '']''"
| "py_repr (PDict d) =
     ''{'' @ join '', '' (map (\<lambda>kv. repr_str (fst kv) @ '': '' @ py_repr (snd kv)) d) @ ''}''"

text \<open>
  \<^verbatim>\<open>str(x)\<close>, which is what \<^verbatim>\<open>"{}".format(x)\<close> and \<^verbatim>\<open>f"{x}"\<close> insert: a string is
  itself, every other value is its \<^verbatim>\<open>repr\<close>.
\<close>

definition py_str :: "pyval \<Rightarrow> string" where
  "py_str v = (case v of PStr s \<Rightarrow> s | _ \<Rightarrow> py_repr v)"

section \<open>Library functions the wrapper calls\<close>

datatype exc =
    OSError
  | TypeError
  | KeyError
  | UnicodeDecodeError
  | ValidationError
  | VeryfiClientError pyval

type_synonym bytes = "char list"

text \<open>
  \<^verbatim>\<open>os.path.basename\<close> (posixpath): what follows the last slash, the whole path when it
  has none.
\<close>

definition basename :: "string \<Rightarrow> string" where
  "basename p = rev (takeWhile (\<lambda>c. c \<noteq> CHR ''/'') (rev p))"

text \<open>
  The file system as the wrapper sees it: \<^verbatim>\<open>open(path, "rb")\<close> followed by
  \<^verbatim>\<open>read()\<close> gives the bytes of the file, or raises.
\<close>

type_synonym filesystem = "string \<Rightarrow> bytes option"

definition read_file :: "filesystem \<Rightarrow> string \<Rightarrow> exc + bytes" where
  "read_file fs path = (case fs path of None \<Rightarrow> Inl OSError | Some b \<Rightarrow> Inr b)"

text \<open>
  \<^verbatim>\<open>base64.b64encode\<close>: three bytes become four characters of the standard alphabet,
  a last group of one or two bytes is padded with \<^verbatim>\<open>=\<close>.
\<close>

definition b64_char :: "nat \<Rightarrow> char" where
  "b64_char n =
     ''ABCDEFGHIJKLMNOPQRSTUVWXYZabcdefghijklmnopqrstuvwxyz0123456789+/'' ! (n mod 64)"

fun b64encode :: "bytes \<Rightarrow> bytes" where
  "b64encode [] = []"
| "b64encode [a] =
     (let n = (of_char a :: nat) * 65536
      in [b64_char (n div 262144), b64_char (n div 4096), CHR ''='', CHR ''=''])"
| "b64encode [a, b] =
     (let n = (of_char a :: nat) * 65536 + of_char b * 256
      in [b64_char (n div 262144), b64_char (n div 4096), b64_char (n div 64), CHR ''=''])"
| "b64encode (a # b # c # rest) =
     (let n = (of_char a :: nat) * 65536 + of_char b * 256 + of_char c
      in [b64_char (n div 262144), b64_char (n div 4096), b64_char (n div 64), b64_char n]
         @ b64encode rest)"

text \<open>
  \<^verbatim>\<open>bytes.decode("utf-8")\<close> on bytes below 0x80: the characters with those codes. A
  byte from 0x80 on belongs to a multi-byte sequence, which may decode to a code point
  this model of \<^verbatim>\<open>str\<close> cannot hold or be invalid; the model reports both as
  \<open>UnicodeDecodeError\<close>. The wrapper decodes base64 output only, where no such byte
  occurs (\<open>b64encode_ascii\<close> below).
\<close>

definition decode_utf8 :: "bytes \<Rightarrow> exc + string" where
  "decode_utf8 bs =
     (if list_all (\<lambda>c. (of_char c :: nat) < 128) bs then Inr bs else Inl UnicodeDecodeError)"

text \<open>\<^verbatim>\<open>needle in s\<close> for two strings: \<^verbatim>\<open>needle\<close> occurs in \<^verbatim>\<open>s\<close> as a substring.\<close>

fun str_contains :: "string \<Rightarrow> string \<Rightarrow> bool" where
  "str_contains needle [] = (needle = [])"
| "str_contains needle (c # cs) =
     (take (length needle) (c # cs) = needle \<or> str_contains needle cs)"

text \<open>
  \<^verbatim>\<open>key in x\<close> for a string \<^verbatim>\<open>key\<close>: membership among the keys of a dict, among the
  elements of a list, as a substring of a string; the other values are not containers and
  the test raises \<^verbatim>\<open>TypeError\<close>.
\<close>

fun py_contains :: "string \<Rightarrow> pyval \<Rightarrow> exc + bool" where
  "py_contains key (PDict d) = Inr (key \<in> set (dict_keys d))"
| "py_contains key (PList xs) = Inr (PStr key \<in> set xs)"
| "py_contains key (PStr s) = Inr (str_contains key s)"
| "py_contains key _ = Inl TypeError"

text \<open>
  \<^verbatim>\<open>x[key]\<close> for a string \<^verbatim>\<open>key\<close>: the value stored in a dict (\<^verbatim>\<open>KeyError\<close> when
  there is none); every other value raises \<^verbatim>\<open>TypeError\<close>, a list and a string because
  their indices must be integers.
\<close>

fun py_getitem :: "pyval \<Rightarrow> string \<Rightarrow> exc + pyval" where
  "py_getitem (PDict d) key = (case dict_get d key of None \<Rightarrow> Inl KeyError | Some v \<Rightarrow> Inr v)"
| "py_getitem _ key = Inl TypeError"

section \<open>The request-dispatch primitive\<close>

text \<open>
  \<^verbatim>\<open>client.request(http_verb, endpoint_name, request_arguments)\<close> belongs to
  \<^verbatim>\<open>veryfi.client_base\<close>, which is not among the sources. It is a parameter here: a
  function that, from the requests sent so far and the present one, gives the
  deserialized response or the exception raised. Every call is recorded in the list of
  requests sent, the only state the wrapper touches.
\<close>

record request =
  http_verb :: string
  endpoint_name :: string
  request_arguments :: pydict

type_synonym client = "request list \<Rightarrow> request \<Rightarrow> exc + pyval"

text \<open>
  \<^verbatim>\<open>client.py\<close> builds one \<^verbatim>\<open>Client\<close> from \<^verbatim>\<open>ClientBase\<close>, \<^verbatim>\<open>Documents\<close> and
  \<^verbatim>\<open>W9s\<close> and gives both resource classes the same \<^verbatim>\<open>request\<close> of the base class,
  so one client serves every method below. A method is a computation over the list of
  requests sent: it returns a value or an exception, and the list after the call.
\<close>

type_synonym 'a io = "request list \<Rightarrow> (exc + 'a) \<times> request list"

definition return_io :: "'a \<Rightarrow> 'a io" where
  "return_io x = (\<lambda>sent. (Inr x, sent))"

definition io_of :: "exc + 'a \<Rightarrow> 'a io" where
  "io_of r = (\<lambda>sent. (r, sent))"

definition bind_io :: "'a io \<Rightarrow> ('a \<Rightarrow> 'b io) \<Rightarrow> 'b io" where
  "bind_io m f =
     (\<lambda>sent. case m sent of (Inl e, sent') \<Rightarrow> (Inl e, sent') | (Inr x, sent') \<Rightarrow> f x sent')"

definition client_request :: "client \<Rightarrow> string \<Rightarrow> string \<Rightarrow> pydict \<Rightarrow> pyval io" where
  "client_request c verb endpoint args =
     (\<lambda>sent. let r = \<lparr>http_verb = verb, endpoint_name = endpoint, request_arguments = args\<rparr>
             in (c sent r, sent @ [r]))"

text \<open>
  \<^verbatim>\<open>**kwargs\<close> as a function body receives it: the keys are distinct and none of them is
  the name of a named parameter of the function, since Python binds such a keyword to
  the parameter.
\<close>

definition kwargs_ok :: "string list \<Rightarrow> pydict \<Rightarrow> bool" where
  "kwargs_ok params kwargs =
     (distinct (dict_keys kwargs) \<and> list_all (\<lambda>k. k \<notin> set params) (dict_keys kwargs))"

section \<open>Documents\<close>

definition CATEGORIES :: "pyval list" where
  "CATEGORIES =
     [PStr ''Advertising & Marketing'',
      PStr ''Automotive'',
      PStr ''Bank Charges & Fees'',
      PStr ''Legal & Professional Services'',
      PStr ''Insurance'',
      PStr ''Meals & Entertainment'',
      PStr ''Office Supplies & Software'',
      PStr ''Taxes & Licenses'',
      PStr ''Travel'',
      PStr ''Rent & Lease'',
      PStr ''Repairs & Maintenance'',
      PStr ''Payroll'',
      PStr ''Utilities'',
      PStr ''Job Supplies'',
      PStr ''Grocery'']"

text \<open>\<^verbatim>\<open>if value: request_params[key] = value\<close>.\<close>

definition set_if_truthy :: "string \<Rightarrow> pyval \<Rightarrow> pydict \<Rightarrow> pydict" where
  "set_if_truthy key v params = (if truthy v then dict_set key v params else params)"

text \<open>
  \<^verbatim>\<open>get_documents\<close>, in three parts: the mapping \<^verbatim>\<open>request_params\<close> as it stands
  after \<^verbatim>\<open>request_params.update(kwargs)\<close>, the endpoint with its query string, and
  the call with the unwrapping of the response.
\<close>

definition get_documents_params ::
  "pyval \<Rightarrow> pyval \<Rightarrow> pyval \<Rightarrow> pyval \<Rightarrow> pyval \<Rightarrow> pyval \<Rightarrow> pyval \<Rightarrow> pydict \<Rightarrow> pydict" where
  "get_documents_params q external_id tag created_gt created_gte created_lt created_lte kwargs =
     (let request_params = [];
          request_params = set_if_truthy ''q'' q request_params;
          request_params = set_if_truthy ''external_id'' external_id request_params;
          request_params = set_if_truthy ''tag'' tag request_params;
          request_params = set_if_truthy ''created__gt'' created_gt request_params;
          request_params = set_if_truthy ''created__gte'' created_gte request_params;
          request_params = set_if_truthy ''created__lt'' created_lt request_params;
          request_params = set_if_truthy ''created__lte'' created_lte request_params
      in dict_update request_params kwargs)"

text \<open>
  \<^verbatim>\<open>"&".join(f"{k}={v}" for k, v in request_params.items())\<close>: the entries, then the
  string they are joined into.
\<close>

definition query_entries :: "pydict \<Rightarrow> string list" where
  "query_entries request_params = map (\<lambda>(k, v). k @ ''='' @ py_str v) request_params"

definition query_string :: "pydict \<Rightarrow> string" where
  "query_string request_params = join ''&'' (query_entries request_params)"

definition get_documents_endpoint :: "pydict \<Rightarrow> string" where
  "get_documents_endpoint request_params =
     (if request_params \<noteq> [] then ''/documents/'' @ ''?'' @ query_string request_params
      else ''/documents/'')"

definition get_documents ::
  "client \<Rightarrow> pyval \<Rightarrow> pyval \<Rightarrow> pyval \<Rightarrow> pyval \<Rightarrow> pyval \<Rightarrow> pyval \<Rightarrow> pyval \<Rightarrow> pydict \<Rightarrow> pyval io" where
  "get_documents c q external_id tag created_gt created_gte created_lt created_lte kwargs =
     (let request_params =
            get_documents_params q external_id tag created_gt created_gte created_lt created_lte
              kwargs;
          endpoint = get_documents_endpoint request_params
      in bind_io (client_request c ''GET'' endpoint []) (\<lambda>documents.
         bind_io (io_of (py_contains ''documents'' documents)) (\<lambda>found.
           if found then io_of (py_getitem documents ''documents'')
           else return_io documents)))"

definition get_document :: "client \<Rightarrow> pyval \<Rightarrow> pyval io" where
  "get_document c document_id =
     (let endpoint = ''/documents/'' @ py_str document_id @ ''/'';
          arguments = [(''id'', document_id)]
      in bind_io (client_request c ''GET'' endpoint arguments) (\<lambda>document.
         return_io document))"

definition process_document ::
  "filesystem \<Rightarrow> client \<Rightarrow> string \<Rightarrow> pyval \<Rightarrow> pyval \<Rightarrow> pydict \<Rightarrow> pyval io" where
  "process_document fs c file_path categories delete_after_processing kwargs =
     (let endpoint = ''/documents/'';
          categories = (if \<not> truthy categories then PList CATEGORIES else categories);
          file_name = basename file_path
      in bind_io (io_of (read_file fs file_path)) (\<lambda>image_bytes.
         bind_io (io_of (decode_utf8 (b64encode image_bytes))) (\<lambda>base64_encoded_string.
           let arguments =
                 dict_update
                   [(''file_name'', PStr file_name),
                    (''file_data'', PStr base64_encoded_string),
                    (''categories'', categories),
                    (''auto_delete'', delete_after_processing)]
                   kwargs
           in bind_io (client_request c ''POST'' endpoint arguments) (\<lambda>document.
              return_io document))))"

definition process_document_url ::
  "client \<Rightarrow> pyval \<Rightarrow> pyval \<Rightarrow> pyval \<Rightarrow> pyval \<Rightarrow> pyval \<Rightarrow> pyval \<Rightarrow> pyval \<Rightarrow> pydict \<Rightarrow> pyval io" where
  "process_document_url c file_url categories delete_after_processing boost_mode external_id
       max_pages_to_process file_urls kwargs =
     (let endpoint = ''/documents/'';
          arguments =
            dict_update
              [(''auto_delete'', delete_after_processing),
               (''boost_mode'', boost_mode),
               (''categories'', categories),
               (''external_id'', external_id),
               (''file_url'', file_url),
               (''file_urls'', file_urls),
               (''max_pages_to_process'', max_pages_to_process)]
              kwargs
      in client_request c ''POST'' endpoint arguments)"

text \<open>The three delete methods call the client and fall off the end: they return \<^verbatim>\<open>None\<close>.\<close>

definition delete_document :: "client \<Rightarrow> pyval \<Rightarrow> pyval io" where
  "delete_document c document_id =
     (let endpoint = ''/documents/'' @ py_str document_id @ ''/'';
          arguments = [(''id'', document_id)]
      in bind_io (client_request c ''DELETE'' endpoint arguments) (\<lambda>_. return_io PNone))"

definition update_document :: "client \<Rightarrow> pyval \<Rightarrow> pydict \<Rightarrow> pyval io" where
  "update_document c document_id kwargs =
     (let endpoint = ''/documents/'' @ py_str document_id @ ''/''
      in client_request c ''PUT'' endpoint kwargs)"

definition get_line_items :: "client \<Rightarrow> pyval \<Rightarrow> pyval io" where
  "get_line_items c document_id =
     (let endpoint = ''/documents/'' @ py_str document_id @ ''/line-items/'';
          arguments = []
      in bind_io (client_request c ''GET'' endpoint arguments) (\<lambda>line_items.
         return_io line_items))"

definition get_line_item :: "client \<Rightarrow> pyval \<Rightarrow> pyval \<Rightarrow> pyval io" where
  "get_line_item c document_id line_item_id =
     (let endpoint =
            ''/documents/'' @ py_str document_id @ ''/line-items/'' @ py_str line_item_id;
          arguments = []
      in bind_io (client_request c ''GET'' endpoint arguments) (\<lambda>line_items.
         return_io line_items))"

text \<open>
  \<^verbatim>\<open>AddLineItem(**payload).dict(exclude_none=True)\<close> and its \<^verbatim>\<open>UpdateLineItem\<close>
  twin come from \<^verbatim>\<open>veryfi.model\<close>, which is not among the sources: each is a parameter,
  a function from the payload to the request arguments or to the exception that the
  validation raises.
\<close>

type_synonym line_item_model = "pydict \<Rightarrow> exc + pydict"

definition add_line_item :: "line_item_model \<Rightarrow> client \<Rightarrow> pyval \<Rightarrow> pydict \<Rightarrow> pyval io" where
  "add_line_item AddLineItem c document_id payload =
     (let endpoint = ''/documents/'' @ py_str document_id @ ''/line-items/''
      in bind_io (io_of (AddLineItem payload)) (\<lambda>arguments.
         client_request c ''POST'' endpoint arguments))"

definition update_line_item ::
  "line_item_model \<Rightarrow> client \<Rightarrow> pyval \<Rightarrow> pyval \<Rightarrow> pydict \<Rightarrow> pyval io" where
  "update_line_item UpdateLineItem c document_id line_item_id payload =
     (let endpoint =
            ''/documents/'' @ py_str document_id @ ''/line-items/'' @ py_str line_item_id
      in bind_io (io_of (UpdateLineItem payload)) (\<lambda>arguments.
         client_request c ''PUT'' endpoint arguments))"

definition delete_line_items :: "client \<Rightarrow> pyval \<Rightarrow> pyval io" where
  "delete_line_items c document_id =
     (let endpoint = ''/documents/'' @ py_str document_id @ ''/line-items/'';
          arguments = []
      in bind_io (client_request c ''DELETE'' endpoint arguments) (\<lambda>_. return_io PNone))"

definition delete_line_item :: "client \<Rightarrow> pyval \<Rightarrow> pyval \<Rightarrow> pyval io" where
  "delete_line_item c document_id line_item_id =
     (let endpoint =
            ''/documents/'' @ py_str document_id @ ''/line-items/'' @ py_str line_item_id;
          arguments = []
      in bind_io (client_request c ''DELETE'' endpoint arguments) (\<lambda>_. return_io PNone))"

definition add_tag :: "client \<Rightarrow> pyval \<Rightarrow> pyval \<Rightarrow> pyval io" where
  "add_tag c document_id tag_name =
     (let endpoint = ''/documents/'' @ py_str document_id @ ''/tags/'';
          arguments = [(''name'', tag_name)]
      in client_request c ''PUT'' endpoint arguments)"

definition replace_tags :: "client \<Rightarrow> pyval \<Rightarrow> pyval \<Rightarrow> pyval io" where
  "replace_tags c document_id tags =
     (let endpoint = ''/documents/'' @ py_str document_id @ ''/'';
          arguments = [(''tags'', tags)]
      in client_request c ''PUT'' endpoint arguments)"

definition add_tags :: "client \<Rightarrow> pyval \<Rightarrow> pyval \<Rightarrow> pyval io" where
  "add_tags c document_id tags =
     (let endpoint = ''/documents/'' @ py_str document_id @ ''/tags/'';
          arguments = [(''tags'', tags)]
      in client_request c ''POST'' endpoint arguments)"

section \<open>W9s\<close>

definition process_w9_document_url :: "client \<Rightarrow> string \<Rightarrow> pyval \<Rightarrow> pydict \<Rightarrow> pyval io" where
  "process_w9_document_url c file_url file_name kwargs =
     (let file_name = (if file_name = PNone then PStr (basename file_url) else file_name);
          endpoint = ''/w9s/'';
          arguments =
            dict_update [(''file_name'', file_name), (''file_url'', PStr file_url)] kwargs
      in client_request c ''POST'' endpoint arguments)"

definition process_w9_document ::
  "filesystem \<Rightarrow> client \<Rightarrow> string \<Rightarrow> pyval \<Rightarrow> pydict \<Rightarrow> pyval io" where
  "process_w9_document fs c file_path file_name kwargs =
     (let endpoint = ''/w9s/'';
          file_name = (if file_name = PNone then PStr (basename file_path) else file_name)
      in bind_io (io_of (read_file fs file_path)) (\<lambda>image_bytes.
         bind_io (io_of (decode_utf8 (b64encode image_bytes))) (\<lambda>base64_encoded_string.
           let arguments =
                 dict_update
                   [(''file_name'', file_name), (''file_data'', PStr base64_encoded_string)]
                   kwargs
           in bind_io (client_request c ''POST'' endpoint arguments) (\<lambda>document.
              return_io document))))"

section \<open>Observing a call\<close>

text \<open>
  What a run of a method adds to the list of requests sent, the verb and endpoint of each
  of these requests, their parameter mappings, and what the client answered to each of
  them at the moment it was sent.
\<close>

definition issued :: "'a io \<Rightarrow> request list \<Rightarrow> request list" where
  "issued m sent = drop (length sent) (snd (m sent))"

definition target :: "request \<Rightarrow> string \<times> string" where
  "target r = (http_verb r, endpoint_name r)"

definition targets :: "'a io \<Rightarrow> request list \<Rightarrow> (string \<times> string) list" where
  "targets m sent = map target (issued m sent)"

definition sent_arguments :: "'a io \<Rightarrow> request list \<Rightarrow> pydict list" where
  "sent_arguments m sent = map request_arguments (issued m sent)"

definition replies :: "client \<Rightarrow> 'a io \<Rightarrow> request list \<Rightarrow> (exc + pyval) list" where
  "replies c m sent =
     (let after = snd (m sent)
      in map (\<lambda>i. c (take i after) (after ! i)) [length sent ..< length after])"

text \<open>The value under one key in each of a list of parameter mappings.\<close>

definition field :: "string \<Rightarrow> pydict list \<Rightarrow> pyval option list" where
  "field key ds = map (\<lambda>d. dict_get d key) ds"

subsection \<open>Concrete clients, file systems and line-item models\<close>

text \<open>
  A client that gives the same answer to every request, a file system with no readable
  file, one with a single file, and line-item models that accept every payload as it is
  or reject every payload.
\<close>

definition reply_with :: "exc + pyval \<Rightarrow> client" where
  "reply_with answer = (\<lambda>sent r. answer)"

definition no_files :: filesystem where
  "no_files = (\<lambda>path. None)"

definition one_file :: "string \<Rightarrow> bytes \<Rightarrow> filesystem" where
  "one_file name content = (\<lambda>path. if path = name then Some content else None)"

definition accept_payload :: line_item_model where
  "accept_payload = (\<lambda>payload. Inr payload)"

definition reject_payload :: line_item_model where
  "reject_payload = (\<lambda>payload. Inl ValidationError)"

text \<open>
  What becomes of the client's answer in a method that calls the client and returns
  nothing: an exception goes through, a response is dropped and \<^verbatim>\<open>None\<close> returned.
\<close>

definition discard :: "exc + pyval \<Rightarrow> exc + pyval" where
  "discard answer = (case answer of Inl e \<Rightarrow> Inl e | Inr response \<Rightarrow> Inr PNone)"

text \<open>A request, written in one line.\<close>

abbreviation Req :: "string \<Rightarrow> string \<Rightarrow> pydict \<Rightarrow> request" where
  "Req verb endpoint args \<equiv>
     \<lparr>http_verb = verb, endpoint_name = endpoint, request_arguments = args\<rparr>"

section \<open>What one call of each method does\<close>

text \<open>
  Base64 output is ASCII, so decoding it never fails; then, for every method, the result
  and the list of requests after the call, with the monadic plumbing unfolded.
\<close>

lemmas io_defs = bind_io_def return_io_def io_of_def client_request_def Let_def

lemma b64_char_ascii: "(of_char (b64_char n) :: nat) < 128"
proof -
  have "b64_char n \<in> set ''ABCDEFGHIJKLMNOPQRSTUVWXYZabcdefghijklmnopqrstuvwxyz0123456789+/''"
    unfolding b64_char_def by (rule nth_mem) simp
  moreover have "list_all (\<lambda>c. (of_char c :: nat) < 128) ''ABCDEFGHIJKLMNOPQRSTUVWXYZabcdefghijklmnopqrstuvwxyz0123456789+/''"
    by code_simp
  ultimately show ?thesis unfolding list_all_iff by blast
qed

lemma b64encode_ascii: "list_all (\<lambda>c. (of_char c :: nat) < 128) (b64encode bs)"
  by (induction bs rule: b64encode.induct) (simp_all add: Let_def b64_char_ascii)

lemma decode_b64encode: "decode_utf8 (b64encode bs) = Inr (b64encode bs)"
  by (simp add: decode_utf8_def b64encode_ascii)

lemma run_get_documents:
  "get_documents c q external_id tag created_gt created_gte created_lt created_lte kwargs sent =
     (let r = Req ''GET''
                (get_documents_endpoint
                   (get_documents_params q external_id tag created_gt created_gte created_lt
                      created_lte kwargs)) []
      in (case c sent r of
            Inl e \<Rightarrow> Inl e
          | Inr documents \<Rightarrow>
              (case py_contains ''documents'' documents of
                 Inl e \<Rightarrow> Inl e
               | Inr found \<Rightarrow> if found then py_getitem documents ''documents'' else Inr documents),
          sent @ [r]))"
  by (simp add: get_documents_def io_defs split: sum.split)

lemma run_get_document:
  "get_document c document_id sent =
     (let r = Req ''GET'' (''/documents/'' @ py_str document_id @ ''/'') [(''id'', document_id)]
      in (c sent r, sent @ [r]))"
  by (simp add: get_document_def io_defs split: sum.split)

lemma run_process_document:
  "process_document fs c file_path categories delete_after_processing kwargs sent =
     (case fs file_path of
        None \<Rightarrow> (Inl OSError, sent)
      | Some image_bytes \<Rightarrow>
          (let r = Req ''POST'' ''/documents/''
                     (dict_update
                        [(''file_name'', PStr (basename file_path)),
                         (''file_data'', PStr (b64encode image_bytes)),
                         (''categories'',
                          if truthy categories then categories else PList CATEGORIES),
                         (''auto_delete'', delete_after_processing)]
                        kwargs)
           in (c sent r, sent @ [r])))"
  by (simp add: process_document_def io_defs read_file_def decode_b64encode
      split: sum.split option.split)

lemma run_process_document_url:
  "process_document_url c file_url categories delete_after_processing boost_mode external_id
       max_pages_to_process file_urls kwargs sent =
     (let r = Req ''POST'' ''/documents/''
                (dict_update
                   [(''auto_delete'', delete_after_processing),
                    (''boost_mode'', boost_mode),
                    (''categories'', categories),
                    (''external_id'', external_id),
                    (''file_url'', file_url),
                    (''file_urls'', file_urls),
                    (''max_pages_to_process'', max_pages_to_process)]
                   kwargs)
      in (c sent r, sent @ [r]))"
  by (simp add: process_document_url_def io_defs)

lemma run_delete_document:
  "delete_document c document_id sent =
     (let r = Req ''DELETE'' (''/documents/'' @ py_str document_id @ ''/'') [(''id'', document_id)]
      in (case c sent r of Inl e \<Rightarrow> Inl e | Inr x \<Rightarrow> Inr PNone, sent @ [r]))"
  by (simp add: delete_document_def io_defs split: sum.split)

lemma run_update_document:
  "update_document c document_id kwargs sent =
     (let r = Req ''PUT'' (''/documents/'' @ py_str document_id @ ''/'') kwargs
      in (c sent r, sent @ [r]))"
  by (simp add: update_document_def io_defs)

lemma run_get_line_items:
  "get_line_items c document_id sent =
     (let r = Req ''GET'' (''/documents/'' @ py_str document_id @ ''/line-items/'') []
      in (c sent r, sent @ [r]))"
  by (simp add: get_line_items_def io_defs split: sum.split)

lemma run_get_line_item:
  "get_line_item c document_id line_item_id sent =
     (let r = Req ''GET''
                (''/documents/'' @ py_str document_id @ ''/line-items/'' @ py_str line_item_id) []
      in (c sent r, sent @ [r]))"
  by (simp add: get_line_item_def io_defs split: sum.split)

lemma run_add_line_item:
  "add_line_item AddLineItem c document_id payload sent =
     (case AddLineItem payload of
        Inl e \<Rightarrow> (Inl e, sent)
      | Inr arguments \<Rightarrow>
          (let r = Req ''POST'' (''/documents/'' @ py_str document_id @ ''/line-items/'') arguments
           in (c sent r, sent @ [r])))"
  by (simp add: add_line_item_def io_defs split: sum.split)

lemma run_update_line_item:
  "update_line_item UpdateLineItem c document_id line_item_id payload sent =
     (case UpdateLineItem payload of
        Inl e \<Rightarrow> (Inl e, sent)
      | Inr arguments \<Rightarrow>
          (let r = Req ''PUT''
                     (''/documents/'' @ py_str document_id @ ''/line-items/'' @ py_str line_item_id)
                     arguments
           in (c sent r, sent @ [r])))"
  by (simp add: update_line_item_def io_defs split: sum.split)

lemma run_delete_line_items:
  "delete_line_items c document_id sent =
     (let r = Req ''DELETE'' (''/documents/'' @ py_str document_id @ ''/line-items/'') []
      in (case c sent r of Inl e \<Rightarrow> Inl e | Inr x \<Rightarrow> Inr PNone, sent @ [r]))"
  by (simp add: delete_line_items_def io_defs split: sum.split)

lemma run_delete_line_item:
  "delete_line_item c document_id line_item_id sent =
     (let r = Req ''DELETE''
                (''/documents/'' @ py_str document_id @ ''/line-items/'' @ py_str line_item_id) []
      in (case c sent r of Inl e \<Rightarrow> Inl e | Inr x \<Rightarrow> Inr PNone, sent @ [r]))"
  by (simp add: delete_line_item_def io_defs split: sum.split)

lemma run_add_tag:
  "add_tag c document_id tag_name sent =
     (let r = Req ''PUT'' (''/documents/'' @ py_str document_id @ ''/tags/'') [(''name'', tag_name)]
      in (c sent r, sent @ [r]))"
  by (simp add: add_tag_def io_defs)

lemma run_replace_tags:
  "replace_tags c document_id tags sent =
     (let r = Req ''PUT'' (''/documents/'' @ py_str document_id @ ''/'') [(''tags'', tags)]
      in (c sent r, sent @ [r]))"
  by (simp add: replace_tags_def io_defs)

lemma run_add_tags:
  "add_tags c document_id tags sent =
     (let r = Req ''POST'' (''/documents/'' @ py_str document_id @ ''/tags/'') [(''tags'', tags)]
      in (c sent r, sent @ [r]))"
  by (simp add: add_tags_def io_defs)

lemma run_process_w9_document_url:
  "process_w9_document_url c file_url file_name kwargs sent =
     (let r = Req ''POST'' ''/w9s/''
                (dict_update
                   [(''file_name'',
                     if file_name = PNone then PStr (basename file_url) else file_name),
                    (''file_url'', PStr file_url)]
                   kwargs)
      in (c sent r, sent @ [r]))"
  by (simp add: process_w9_document_url_def io_defs)

lemma run_process_w9_document:
  "process_w9_document fs c file_path file_name kwargs sent =
     (case fs file_path of
        None \<Rightarrow> (Inl OSError, sent)
      | Some image_bytes \<Rightarrow>
          (let r = Req ''POST'' ''/w9s/''
                     (dict_update
                        [(''file_name'',
                          if file_name = PNone then PStr (basename file_path) else file_name),
                         (''file_data'', PStr (b64encode image_bytes))]
                        kwargs)
           in (c sent r, sent @ [r])))"
  by (simp add: process_w9_document_def io_defs read_file_def decode_b64encode
      split: sum.split option.split)

lemmas observe_defs = issued_def targets_def target_def sent_arguments_def replies_def field_def

lemma py_str_42: "py_str (PInt 42) = ''42''"
  by code_simp

lemma py_str_7: "py_str (PInt 7) = ''7''"
  by code_simp

lemma dict_key_iff: "key \<in> set (dict_keys d) \<longleftrightarrow> dict_get d key \<noteq> None"
  by (simp add: dict_keys_def dict_get_def map_of_eq_None_iff)

text \<open>Reading a dictionary after an assignment and after an update.\<close>

lemma dict_get_Nil: "dict_get [] k = None"
  by (simp add: dict_get_def)

lemma dict_get_Cons: "dict_get ((k, v) # d) k' = (if k' = k then Some v else dict_get d k')"
  by (simp add: dict_get_def)

lemma dict_get_dict_set:
  "dict_get (dict_set k v d) k' = (if k' = k then Some v else dict_get d k')"
  by (induction d) (auto simp: dict_get_def)

lemma dict_get_dict_update_other:
  "k \<notin> set (dict_keys other) \<Longrightarrow> dict_get (dict_update d other) k = dict_get d k"
proof (induction d other rule: dict_update.induct)
  case (1 d)
  show ?case by simp
next
  case (2 d k' v other)
  then show ?case by (simp add: dict_get_dict_set dict_keys_def)
qed

lemma dict_keys_dict_set:
  "dict_keys (dict_set k v d) = (if k \<in> set (dict_keys d) then dict_keys d else dict_keys d @ [k])"
  by (induction d) (force simp: dict_keys_def)+

lemma set_dict_keys_dict_update:
  "set (dict_keys (dict_update d other)) = set (dict_keys d) \<union> set (dict_keys other)"
proof (induction d other rule: dict_update.induct)
  case (1 d)
  show ?case by (simp add: dict_keys_def)
next
  case (2 d k v other)
  have "set (dict_keys ((k, v) # other)) = insert k (set (dict_keys other))"
    by (simp add: dict_keys_def)
  with 2 show ?case by (auto simp: dict_keys_dict_set)
qed

lemma kwargs_ok_notin:
  "kwargs_ok params kwargs \<Longrightarrow> k \<in> set params \<Longrightarrow> k \<notin> set (dict_keys kwargs)"
  by (auto simp: kwargs_ok_def list_all_iff)

lemma b64encode_rfc4648:
  "b64encode ''f'' = ''Zg=='' \<and> b64encode ''fo'' = ''Zm8='' \<and> b64encode ''foo'' = ''Zm9v''
   \<and> b64encode ''foobar'' = ''Zm9vYmFy''"
  by (simp add: b64_char_def)

text \<open>The parameters of \<^verbatim>\<open>get_documents\<close> and the entries of its query string.\<close>

lemma dict_get_set_if_truthy:
  "dict_get (set_if_truthy k v d) k' = (if truthy v \<and> k' = k then Some v else dict_get d k')"
  by (simp add: set_if_truthy_def dict_get_dict_set)

lemma set_dict_keys_set_if_truthy:
  "set (dict_keys (set_if_truthy k v d)) =
     (if truthy v then insert k (set (dict_keys d)) else set (dict_keys d))"
  by (simp add: set_if_truthy_def dict_keys_dict_set) auto

lemma dict_get_dict_update:
  "distinct (dict_keys other) \<Longrightarrow>
   dict_get (dict_update d other) k =
     (case dict_get other k of Some v \<Rightarrow> Some v | None \<Rightarrow> dict_get d k)"
proof (induction d other rule: dict_update.induct)
  case (1 d)
  show ?case by (simp add: dict_get_Nil)
next
  case (2 d k' v other)
  then have "k' \<notin> set (dict_keys other)" and "distinct (dict_keys other)"
    by (simp_all add: dict_keys_def)
  with 2 show ?case
    by (auto simp: dict_get_Cons dict_get_dict_set dict_get_dict_update_other dict_key_iff
        split: option.split)
qed


lemma get_documents_params_get:
  "k \<notin> set (dict_keys kwargs) \<Longrightarrow>
   dict_get (get_documents_params q external_id tag created_gt created_gte created_lt
      created_lte kwargs) k =
     (if truthy created_lte \<and> k = ''created__lte'' then Some created_lte
      else if truthy created_lt \<and> k = ''created__lt'' then Some created_lt
      else if truthy created_gte \<and> k = ''created__gte'' then Some created_gte
      else if truthy created_gt \<and> k = ''created__gt'' then Some created_gt
      else if truthy tag \<and> k = ''tag'' then Some tag
      else if truthy external_id \<and> k = ''external_id'' then Some external_id
      else if truthy q \<and> k = ''q'' then Some q
      else None)"
  by (simp add: get_documents_params_def Let_def dict_get_dict_update_other
      dict_get_set_if_truthy dict_get_Nil)

lemma get_documents_params_filter:
  "get_documents_params q external_id tag created_gt created_gte created_lt created_lte kwargs =
     dict_update
       (filter (\<lambda>kv. truthy (snd kv))
          [(''q'', q), (''external_id'', external_id), (''tag'', tag),
           (''created__gt'', created_gt), (''created__gte'', created_gte),
           (''created__lt'', created_lt), (''created__lte'', created_lte)])
       kwargs"
  by (simp add: get_documents_params_def set_if_truthy_def Let_def)

lemma get_documents_endpoint_join:
  "get_documents_endpoint params =
     ''/documents/'' @
       (if params = [] then []
        else ''?'' @ join ''&'' (map (\<lambda>(k, v). k @ ''='' @ py_str v) params))"
  by (simp add: get_documents_endpoint_def query_string_def query_entries_def)

section \<open>The claims\<close>

text \<open>
  Claim C10. When opening or reading the file at \<^verbatim>\<open>file_path\<close> fails,
  \<^verbatim>\<open>process_document\<close> and \<^verbatim>\<open>process_w9_document\<close> raise (here \<open>OSError\<close>)
  and the list of requests sent is what it was before the call: the client is never
  invoked and no request goes out.
\<close>

theorem read_failure_sends_nothing:
  "fs file_path = None \<Longrightarrow>
     process_document fs c file_path categories delete_after_processing kwargs sent
       = (Inl OSError, sent)
   \<and> process_w9_document fs c file_path file_name kwargs' sent = (Inl OSError, sent)"
  by (simp add: run_process_document run_process_w9_document)

theorem read_failure_sends_nothing_witness:
  "no_files ''missing.jpg'' = None
   \<and> process_document no_files (reply_with (Inr (PStr ''ok''))) ''missing.jpg'' PNone
        (PBool False) [] [] = (Inl OSError, [])
   \<and> process_w9_document no_files (reply_with (Inr (PStr ''ok''))) ''missing.jpg'' PNone [] []
        = (Inl OSError, [])"
  using read_failure_sends_nothing [where fs = no_files and file_path = "''missing.jpg''"
      and c = "reply_with (Inr (PStr ''ok''))" and categories = PNone
      and delete_after_processing = "PBool False" and kwargs = "[]" and sent = "[]"
      and file_name = PNone and kwargs' = "[]"]
  by (simp add: no_files_def)

text \<open>
  Claim C3. Each library call maps onto its REST endpoint: \<^verbatim>\<open>get_document\<close> issues
  GET, \<^verbatim>\<open>update_document\<close> PUT and \<^verbatim>\<open>delete_document\<close> DELETE to
  \<^verbatim>\<open>/documents/{document_id}/\<close>; the line-item methods target
  \<^verbatim>\<open>/documents/{document_id}/line-items/\<close>, followed by the line item id where one is
  given, with GET, POST, PUT or DELETE; \<^verbatim>\<open>add_tag\<close> and \<^verbatim>\<open>add_tags\<close> target
  \<^verbatim>\<open>/documents/{document_id}/tags/\<close>. The two methods that validate a payload issue
  their request when the validation accepts it, and nothing otherwise.
\<close>

theorem endpoints:
  "targets (get_document c document_id) sent =
     [(''GET'', ''/documents/'' @ py_str document_id @ ''/'')]
   \<and> targets (update_document c document_id kwargs) sent =
     [(''PUT'', ''/documents/'' @ py_str document_id @ ''/'')]
   \<and> targets (delete_document c document_id) sent =
     [(''DELETE'', ''/documents/'' @ py_str document_id @ ''/'')]
   \<and> targets (get_line_items c document_id) sent =
     [(''GET'', ''/documents/'' @ py_str document_id @ ''/line-items/'')]
   \<and> targets (get_line_item c document_id line_item_id) sent =
     [(''GET'', ''/documents/'' @ py_str document_id @ ''/line-items/'' @ py_str line_item_id)]
   \<and> targets (add_line_item AddLineItem c document_id payload) sent =
     (case AddLineItem payload of
        Inl e \<Rightarrow> []
      | Inr arguments \<Rightarrow> [(''POST'', ''/documents/'' @ py_str document_id @ ''/line-items/'')])
   \<and> targets (update_line_item UpdateLineItem c document_id line_item_id payload) sent =
     (case UpdateLineItem payload of
        Inl e \<Rightarrow> []
      | Inr arguments \<Rightarrow>
          [(''PUT'', ''/documents/'' @ py_str document_id @ ''/line-items/'' @ py_str line_item_id)])
   \<and> targets (delete_line_items c document_id) sent =
     [(''DELETE'', ''/documents/'' @ py_str document_id @ ''/line-items/'')]
   \<and> targets (delete_line_item c document_id line_item_id) sent =
     [(''DELETE'', ''/documents/'' @ py_str document_id @ ''/line-items/'' @ py_str line_item_id)]
   \<and> targets (add_tag c document_id tag_name) sent =
     [(''PUT'', ''/documents/'' @ py_str document_id @ ''/tags/'')]
   \<and> targets (add_tags c document_id tags) sent =
     [(''POST'', ''/documents/'' @ py_str document_id @ ''/tags/'')]"
  by (simp add: observe_defs Let_def run_get_document run_update_document run_delete_document
      run_get_line_items run_get_line_item run_add_line_item run_update_line_item
      run_delete_line_items run_delete_line_item run_add_tag run_add_tags split: sum.split)

theorem endpoints_witness:
  "targets (get_document (reply_with (Inr PNone)) (PInt 42)) [] = [(''GET'', ''/documents/42/'')]
   \<and> targets (update_document (reply_with (Inr PNone)) (PInt 42) [(''notes'', PStr ''x'')]) []
       = [(''PUT'', ''/documents/42/'')]
   \<and> targets (delete_document (reply_with (Inr PNone)) (PInt 42)) []
       = [(''DELETE'', ''/documents/42/'')]
   \<and> targets (get_line_item (reply_with (Inr PNone)) (PInt 42) (PInt 7)) []
       = [(''GET'', ''/documents/42/line-items/7'')]
   \<and> targets (add_line_item accept_payload (reply_with (Inr PNone)) (PInt 42) []) []
       = [(''POST'', ''/documents/42/line-items/'')]
   \<and> targets (update_line_item reject_payload (reply_with (Inr PNone)) (PInt 42) (PInt 7) []) []
       = []
   \<and> targets (add_tags (reply_with (Inr PNone)) (PInt 42) (PList [PStr ''a''])) []
       = [(''POST'', ''/documents/42/tags/'')]"
  using endpoints [of "reply_with (Inr PNone)" "PInt 42" "[]" "[(''notes'', PStr ''x'')]"
      "PInt 7" accept_payload "[]" reject_payload PNone "PList [PStr ''a'']"]
  by (simp add: py_str_42 py_str_7 accept_payload_def reject_payload_def)

text \<open>
  Claim C6, as stated: every invocation of a public method invokes \<^verbatim>\<open>client.request\<close>
  exactly once. It fails where a method raises before it reaches the client:
  \<^verbatim>\<open>process_document\<close> on a file that cannot be read sends no request at all.
\<close>

theorem exactly_once_counterexample:
  "issued (process_document no_files (reply_with (Inr (PStr ''ok''))) ''missing.jpg'' PNone
      (PBool False) []) [] = []"
  by (simp add: run_process_document no_files_def issued_def)

text \<open>
  Claim C6, amended. No caching and no retry: every public method of Documents and W9s
  invokes \<^verbatim>\<open>client.request\<close> exactly once, whatever the client answers, except that
  a method that raises before the dispatch invokes it zero times:
  \<^verbatim>\<open>process_document\<close> and \<^verbatim>\<open>process_w9_document\<close> when the file cannot be read,
  \<^verbatim>\<open>add_line_item\<close> and \<^verbatim>\<open>update_line_item\<close> when the line-item model rejects the
  payload. It is never invoked a second time.
\<close>

theorem requests_per_call:
  "length (issued (get_documents c q external_id tag created_gt created_gte created_lt
      created_lte kwargs) sent) = 1
   \<and> length (issued (get_document c document_id) sent) = 1
   \<and> length (issued (process_document fs c file_path categories delete_after_processing
        kwargs) sent) = (case fs file_path of None \<Rightarrow> 0 | Some image_bytes \<Rightarrow> 1)
   \<and> length (issued (process_document_url c file_url categories delete_after_processing
        boost_mode external_id max_pages_to_process file_urls kwargs) sent) = 1
   \<and> length (issued (delete_document c document_id) sent) = 1
   \<and> length (issued (update_document c document_id kwargs) sent) = 1
   \<and> length (issued (get_line_items c document_id) sent) = 1
   \<and> length (issued (get_line_item c document_id line_item_id) sent) = 1
   \<and> length (issued (add_line_item AddLineItem c document_id payload) sent) =
        (case AddLineItem payload of Inl e \<Rightarrow> 0 | Inr arguments \<Rightarrow> 1)
   \<and> length (issued (update_line_item UpdateLineItem c document_id line_item_id payload)
        sent) = (case UpdateLineItem payload of Inl e \<Rightarrow> 0 | Inr arguments \<Rightarrow> 1)
   \<and> length (issued (delete_line_items c document_id) sent) = 1
   \<and> length (issued (delete_line_item c document_id line_item_id) sent) = 1
   \<and> length (issued (add_tag c document_id tag_name) sent) = 1
   \<and> length (issued (replace_tags c document_id tags) sent) = 1
   \<and> length (issued (add_tags c document_id tags) sent) = 1
   \<and> length (issued (process_w9_document_url c w9_url file_name kwargs) sent) = 1
   \<and> length (issued (process_w9_document fs c file_path file_name kwargs) sent) =
        (case fs file_path of None \<Rightarrow> 0 | Some image_bytes \<Rightarrow> 1)"
  by (simp add: issued_def Let_def run_get_documents run_get_document run_process_document
      run_process_document_url run_delete_document run_update_document run_get_line_items
      run_get_line_item run_add_line_item run_update_line_item run_delete_line_items
      run_delete_line_item run_add_tag run_replace_tags run_add_tags
      run_process_w9_document_url run_process_w9_document split: sum.split option.split)

theorem requests_per_call_witness:
  "length (issued (get_document (reply_with (Inl (VeryfiClientError PNone))) (PInt 42)) []) = 1
   \<and> length (issued (process_document (one_file ''r.jpg'' ''foo'') (reply_with (Inr PNone))
        ''r.jpg'' PNone (PBool False) []) []) = 1
   \<and> length (issued (process_w9_document no_files (reply_with (Inr PNone)) ''r.jpg'' PNone [])
        []) = 0
   \<and> length (issued (add_line_item accept_payload (reply_with (Inr PNone)) (PInt 42) []) [])
        = 1
   \<and> length (issued (update_line_item reject_payload (reply_with (Inr PNone)) (PInt 42)
        (PInt 7) []) []) = 0"
  using requests_per_call [where c = "reply_with (Inl (VeryfiClientError PNone))" and document_id = "PInt 42"
      and sent = "[]"]
    requests_per_call [where c = "reply_with (Inr PNone)" and fs = "one_file ''r.jpg'' ''foo''"
      and file_path = "''r.jpg''" and categories = PNone
      and delete_after_processing = "PBool False" and kwargs = "[]" and sent = "[]"
      and AddLineItem = accept_payload and document_id = "PInt 42" and payload = "[]"]
    requests_per_call [where c = "reply_with (Inr PNone)" and fs = no_files
      and file_path = "''r.jpg''" and file_name = PNone and kwargs = "[]" and sent = "[]"
      and UpdateLineItem = reject_payload and document_id = "PInt 42"
      and line_item_id = "PInt 7" and payload = "[]"]
  by (simp add: one_file_def no_files_def accept_payload_def reject_payload_def)

text \<open>
  Claim C1, as stated: every public method returns the deserialized response unmodified,
  \<^verbatim>\<open>delete_document\<close> included. It fails there: the client answers \<^verbatim>\<open>"ok"\<close> and
  \<^verbatim>\<open>delete_document\<close> returns \<^verbatim>\<open>None\<close>.
\<close>

theorem delete_document_discards_reply:
  "replies (reply_with (Inr (PStr ''ok''))) (delete_document (reply_with (Inr (PStr ''ok'')))
      (PInt 42)) [] = [Inr (PStr ''ok'')]
   \<and> fst (delete_document (reply_with (Inr (PStr ''ok''))) (PInt 42) []) = Inr PNone"
  by (simp add: run_delete_document replies_def reply_with_def Let_def)

text \<open>
  Claim C1, amended. Every public method of Documents and W9s other than
  \<^verbatim>\<open>get_documents\<close> and the three delete methods returns what the request-dispatch
  primitive answered, unmodified (its exception included), whenever it reaches the
  dispatch; \<^verbatim>\<open>delete_document\<close>, \<^verbatim>\<open>delete_line_items\<close> and \<^verbatim>\<open>delete_line_item\<close>
  drop the response and return \<^verbatim>\<open>None\<close>; \<^verbatim>\<open>get_documents\<close> returns the value under
  \<^verbatim>\<open>"documents"\<close> when the response is a mapping that has this key.
\<close>

theorem results_are_replies:
  "replies c (get_document c document_id) sent = [fst (get_document c document_id sent)]
   \<and> replies c (process_document fs c file_path categories delete_after_processing kwargs)
        sent =
      (case fs file_path of
         None \<Rightarrow> []
       | Some image_bytes \<Rightarrow>
           [fst (process_document fs c file_path categories delete_after_processing kwargs
              sent)])
   \<and> replies c (process_document_url c file_url categories delete_after_processing boost_mode
        external_id max_pages_to_process file_urls kwargs) sent =
      [fst (process_document_url c file_url categories delete_after_processing boost_mode
         external_id max_pages_to_process file_urls kwargs sent)]
   \<and> replies c (update_document c document_id kwargs) sent =
      [fst (update_document c document_id kwargs sent)]
   \<and> replies c (get_line_items c document_id) sent = [fst (get_line_items c document_id sent)]
   \<and> replies c (get_line_item c document_id line_item_id) sent =
      [fst (get_line_item c document_id line_item_id sent)]
   \<and> replies c (add_line_item AddLineItem c document_id payload) sent =
      (case AddLineItem payload of
         Inl e \<Rightarrow> []
       | Inr arguments \<Rightarrow> [fst (add_line_item AddLineItem c document_id payload sent)])
   \<and> replies c (update_line_item UpdateLineItem c document_id line_item_id payload) sent =
      (case UpdateLineItem payload of
         Inl e \<Rightarrow> []
       | Inr arguments \<Rightarrow>
           [fst (update_line_item UpdateLineItem c document_id line_item_id payload sent)])
   \<and> replies c (add_tag c document_id tag_name) sent = [fst (add_tag c document_id tag_name sent)]
   \<and> replies c (replace_tags c document_id tags) sent =
      [fst (replace_tags c document_id tags sent)]
   \<and> replies c (add_tags c document_id tags) sent = [fst (add_tags c document_id tags sent)]
   \<and> replies c (process_w9_document_url c w9_url file_name kwargs) sent =
      [fst (process_w9_document_url c w9_url file_name kwargs sent)]
   \<and> replies c (process_w9_document fs c file_path file_name kwargs) sent =
      (case fs file_path of
         None \<Rightarrow> []
       | Some image_bytes \<Rightarrow> [fst (process_w9_document fs c file_path file_name kwargs sent)])
   \<and> map discard (replies c (delete_document c document_id) sent) =
      [fst (delete_document c document_id sent)]
   \<and> map discard (replies c (delete_line_items c document_id) sent) =
      [fst (delete_line_items c document_id sent)]
   \<and> map discard (replies c (delete_line_item c document_id line_item_id) sent) =
      [fst (delete_line_item c document_id line_item_id sent)]
   \<and> (replies c (get_documents c q external_id tag created_gt created_gte created_lt
         created_lte kwargs) sent = [Inr (PDict d)] \<and> dict_get d ''documents'' = Some v
       \<longrightarrow> fst (get_documents c q external_id tag created_gt created_gte created_lt
         created_lte kwargs sent) = Inr v)"
  by (simp add: replies_def discard_def Let_def dict_key_iff
      run_get_documents run_get_document run_process_document
      run_process_document_url run_delete_document run_update_document run_get_line_items
      run_get_line_item run_add_line_item run_update_line_item run_delete_line_items
      run_delete_line_item run_add_tag run_replace_tags run_add_tags
      run_process_w9_document_url run_process_w9_document split: sum.split option.split)

theorem results_are_replies_witness:
  "replies (reply_with (Inr (PDict [(''documents'', PList [])])))
      (get_documents (reply_with (Inr (PDict [(''documents'', PList [])]))) PNone PNone PNone
         PNone PNone PNone PNone []) []
     = [Inr (PDict [(''documents'', PList [])])]
   \<and> dict_get [(''documents'', PList [])] ''documents'' = Some (PList [])
   \<and> fst (get_documents (reply_with (Inr (PDict [(''documents'', PList [])]))) PNone PNone
        PNone PNone PNone PNone PNone [] []) = Inr (PList [])
   \<and> replies (reply_with (Inr (PStr ''ok''))) (get_document (reply_with (Inr (PStr ''ok'')))
        (PInt 42)) [] = [fst (get_document (reply_with (Inr (PStr ''ok''))) (PInt 42) [])]"
proof -
  let ?c = "reply_with (Inr (PDict [(''documents'', PList [])]))"
  have h1: "replies ?c (get_documents ?c PNone PNone PNone PNone PNone PNone PNone []) []
      = [Inr (PDict [(''documents'', PList [])])]"
    by (simp add: replies_def run_get_documents Let_def reply_with_def)
  have h2: "dict_get [(''documents'', PList [])] ''documents'' = Some (PList [])"
    by (simp add: dict_get_def)
  have "fst (get_documents ?c PNone PNone PNone PNone PNone PNone PNone [] []) = Inr (PList [])"
    using h1 h2
      results_are_replies [where c = ?c and q = PNone and external_id = PNone and tag = PNone
        and created_gt = PNone and created_gte = PNone and created_lt = PNone
        and created_lte = PNone and kwargs = "[]" and sent = "[]"
        and d = "[(''documents'', PList [])]" and v = "PList []"]
    by blast
  moreover have "replies (reply_with (Inr (PStr ''ok'')))
      (get_document (reply_with (Inr (PStr ''ok''))) (PInt 42)) []
     = [fst (get_document (reply_with (Inr (PStr ''ok''))) (PInt 42) [])]"
    by (rule results_are_replies [where c = "reply_with (Inr (PStr ''ok''))" and document_id = "PInt 42"
          and sent = "[]", THEN conjunct1])
  ultimately show ?thesis using h1 h2 by simp
qed

text \<open>
  Claim C9, as stated: \<^verbatim>\<open>get_documents\<close> returns \<^verbatim>\<open>r["documents"]\<close> when the response
  \<^verbatim>\<open>r\<close> is a mapping with the key \<^verbatim>\<open>"documents"\<close> and \<^verbatim>\<open>r\<close> itself otherwise. It
  fails for a response that is no container: on \<^verbatim>\<open>None\<close> the test
  \<^verbatim>\<open>"documents" in documents\<close> raises \<^verbatim>\<open>TypeError\<close> and nothing is returned.
\<close>

theorem get_documents_none_reply:
  "replies (reply_with (Inr PNone))
      (get_documents (reply_with (Inr PNone)) PNone PNone PNone PNone PNone PNone PNone []) []
     = [Inr PNone]
   \<and> fst (get_documents (reply_with (Inr PNone)) PNone PNone PNone PNone PNone PNone PNone []
        []) = Inl TypeError"
  by (simp add: replies_def run_get_documents Let_def reply_with_def)

text \<open>
  Claim C9, amended. For a response \<^verbatim>\<open>r\<close> of the request-dispatch primitive,
  \<^verbatim>\<open>get_documents\<close> returns \<^verbatim>\<open>r["documents"]\<close> when \<^verbatim>\<open>r\<close> is a mapping with the key
  \<^verbatim>\<open>"documents"\<close>, and \<^verbatim>\<open>r\<close> itself when \<^verbatim>\<open>r\<close> is a mapping without that key, a
  list that has no element equal to the string \<^verbatim>\<open>"documents"\<close>, or a string in which
  \<^verbatim>\<open>documents\<close> does not occur. For every other response the membership test or the
  subscript raises \<^verbatim>\<open>TypeError\<close>.
\<close>

theorem get_documents_unwraps:
  assumes "replies c (get_documents c q external_id tag created_gt created_gte created_lt
      created_lte kwargs) sent = [Inr r]"
  shows "fst (get_documents c q external_id tag created_gt created_gte created_lt created_lte
      kwargs sent) =
     (case r of
        PDict d \<Rightarrow> (case dict_get d ''documents'' of Some v \<Rightarrow> Inr v | None \<Rightarrow> Inr r)
      | PList xs \<Rightarrow> if PStr ''documents'' \<in> set xs then Inl TypeError else Inr r
      | PStr s \<Rightarrow> if str_contains ''documents'' s then Inl TypeError else Inr r
      | _ \<Rightarrow> Inl TypeError)"
  using assms
  by (cases r)
    (auto simp: replies_def run_get_documents Let_def dict_key_iff split: option.split)

theorem get_documents_unwraps_witness:
  "replies (reply_with (Inr (PList [PDict [(''id'', PInt 1)]])))
      (get_documents (reply_with (Inr (PList [PDict [(''id'', PInt 1)]]))) (PStr ''x'') PNone
         PNone PNone PNone PNone PNone []) []
     = [Inr (PList [PDict [(''id'', PInt 1)]])]
   \<and> fst (get_documents (reply_with (Inr (PList [PDict [(''id'', PInt 1)]]))) (PStr ''x'') PNone
        PNone PNone PNone PNone PNone [] []) = Inr (PList [PDict [(''id'', PInt 1)]])"
proof -
  let ?r = "PList [PDict [(''id'', PInt 1)]]"
  have h: "replies (reply_with (Inr ?r))
      (get_documents (reply_with (Inr ?r)) (PStr ''x'') PNone PNone PNone PNone PNone PNone [])
      [] = [Inr ?r]"
    by (simp add: replies_def run_get_documents Let_def reply_with_def)
  show ?thesis using h get_documents_unwraps [OF h] by simp
qed

text \<open>
  Claim C7. The W9s endpoint family: \<^verbatim>\<open>process_w9_document_url\<close> and
  \<^verbatim>\<open>process_w9_document\<close> issue a POST to \<^verbatim>\<open>/w9s/\<close> (the second once the file has
  been read; it sends nothing when the file cannot be read), and
  \<^verbatim>\<open>process_w9_document_url\<close> called without a \<^verbatim>\<open>file_name\<close> sends as
  \<^verbatim>\<open>"file_name"\<close> the basename of \<^verbatim>\<open>file_url\<close>. The keyword arguments are those a call
  can bind to \<^verbatim>\<open>**kwargs\<close>: none is named like a parameter of the method.
\<close>

theorem w9s_endpoint:
  "targets (process_w9_document_url c file_url file_name kwargs) sent = [(''POST'', ''/w9s/'')]
   \<and> targets (process_w9_document fs c file_path file_name kwargs) sent =
       (case fs file_path of None \<Rightarrow> [] | Some image_bytes \<Rightarrow> [(''POST'', ''/w9s/'')])
   \<and> (kwargs_ok [''self'', ''file_url'', ''file_name''] kwargs \<longrightarrow>
        field ''file_name'' (sent_arguments (process_w9_document_url c file_url PNone kwargs) sent)
          = [Some (PStr (basename file_url))])"
proof -
  have "kwargs_ok [''self'', ''file_url'', ''file_name''] kwargs \<Longrightarrow>
      ''file_name'' \<notin> set (dict_keys kwargs)"
    by (erule kwargs_ok_notin) simp
  then show ?thesis
    by (auto simp: observe_defs Let_def run_process_w9_document_url run_process_w9_document
        dict_get_dict_update_other dict_get_Cons split: option.split)
qed

theorem w9s_endpoint_witness:
  "kwargs_ok [''self'', ''file_url'', ''file_name''] [(''boost_mode'', PInt 1)]
   \<and> targets (process_w9_document_url (reply_with (Inr PNone))
        ''https://cdn.example.com/forms/w9.pdf'' PNone [(''boost_mode'', PInt 1)]) []
       = [(''POST'', ''/w9s/'')]
   \<and> field ''file_name'' (sent_arguments (process_w9_document_url (reply_with (Inr PNone))
        ''https://cdn.example.com/forms/w9.pdf'' PNone [(''boost_mode'', PInt 1)]) [])
       = [Some (PStr ''w9.pdf'')]
   \<and> targets (process_w9_document (one_file ''forms/w9.pdf'' ''foo'') (reply_with (Inr PNone))
        ''forms/w9.pdf'' PNone [(''boost_mode'', PInt 1)]) [] = [(''POST'', ''/w9s/'')]"
proof -
  have h: "kwargs_ok [''self'', ''file_url'', ''file_name''] [(''boost_mode'', PInt 1)]"
    by (simp add: kwargs_ok_def dict_keys_def)
  show ?thesis
    using h w9s_endpoint [where c = "reply_with (Inr PNone)"
        and file_url = "''https://cdn.example.com/forms/w9.pdf''" and file_name = PNone
        and kwargs = "[(''boost_mode'', PInt 1)]" and sent = "[]"
        and fs = "one_file ''forms/w9.pdf'' ''foo''" and file_path = "''forms/w9.pdf''"]
    by (simp add: basename_def one_file_def)
qed

text \<open>
  Claim C8. When \<^verbatim>\<open>process_document\<close> is called with \<^verbatim>\<open>categories\<close> equal to
  \<^verbatim>\<open>None\<close> or to the empty list, the \<^verbatim>\<open>"categories"\<close> field of the request is the default
  list \<^verbatim>\<open>Documents.CATEGORIES\<close>, which has 15 elements; a non-empty list is sent
  unchanged. The file is one that can be read, so that there is a request, and the keyword
  arguments are those a call can bind to \<^verbatim>\<open>**kwargs\<close>.
\<close>

theorem default_categories:
  assumes "fs file_path = Some image_bytes"
    and "kwargs_ok [''self'', ''file_path'', ''categories'', ''delete_after_processing''] kwargs"
  shows "(categories = PNone \<or> categories = PList [] \<longrightarrow>
           field ''categories''
             (sent_arguments
                (process_document fs c file_path categories delete_after_processing kwargs) sent)
             = [Some (PList CATEGORIES)])
         \<and> (categories = PList (x # xs) \<longrightarrow>
           field ''categories''
             (sent_arguments
                (process_document fs c file_path categories delete_after_processing kwargs) sent)
             = [Some categories])
         \<and> length CATEGORIES = 15"
proof -
  have "''categories'' \<notin> set (dict_keys kwargs)"
    using assms(2) by (rule kwargs_ok_notin) simp
  then show ?thesis
    using assms(1)
    by (auto simp: observe_defs Let_def run_process_document dict_get_dict_update_other
        dict_get_Cons) (simp add: CATEGORIES_def)
qed

theorem default_categories_witness:
  "one_file ''r.jpg'' ''foo'' ''r.jpg'' = Some ''foo''
   \<and> kwargs_ok [''self'', ''file_path'', ''categories'', ''delete_after_processing'']
        [(''boost_mode'', PInt 1)]
   \<and> field ''categories'' (sent_arguments (process_document (one_file ''r.jpg'' ''foo'')
        (reply_with (Inr PNone)) ''r.jpg'' PNone (PBool False) [(''boost_mode'', PInt 1)]) [])
       = [Some (PList CATEGORIES)]
   \<and> field ''categories'' (sent_arguments (process_document (one_file ''r.jpg'' ''foo'')
        (reply_with (Inr PNone)) ''r.jpg'' (PList []) (PBool False) [(''boost_mode'', PInt 1)]) [])
       = [Some (PList CATEGORIES)]
   \<and> field ''categories'' (sent_arguments (process_document (one_file ''r.jpg'' ''foo'')
        (reply_with (Inr PNone)) ''r.jpg'' (PList [PStr ''Travel'']) (PBool False)
        [(''boost_mode'', PInt 1)]) [])
       = [Some (PList [PStr ''Travel''])]"
proof -
  have h1: "one_file ''r.jpg'' ''foo'' ''r.jpg'' = Some ''foo''"
    by (simp add: one_file_def)
  have h2: "kwargs_ok [''self'', ''file_path'', ''categories'', ''delete_after_processing'']
      [(''boost_mode'', PInt 1)]"
    by (simp add: kwargs_ok_def dict_keys_def)
  show ?thesis
    using h1 h2
      default_categories [where fs = "one_file ''r.jpg'' ''foo''" and file_path = "''r.jpg''"
        and image_bytes = "''foo''" and kwargs = "[(''boost_mode'', PInt 1)]" and categories = PNone and c = "reply_with (Inr PNone)"
        and delete_after_processing = "PBool False" and sent = "[]"]
      default_categories [where fs = "one_file ''r.jpg'' ''foo''" and file_path = "''r.jpg''"
        and image_bytes = "''foo''" and kwargs = "[(''boost_mode'', PInt 1)]" and categories = "PList []" and c = "reply_with (Inr PNone)"
        and delete_after_processing = "PBool False" and sent = "[]"]
      default_categories [where fs = "one_file ''r.jpg'' ''foo''" and file_path = "''r.jpg''"
        and image_bytes = "''foo''" and kwargs = "[(''boost_mode'', PInt 1)]" and categories = "PList [PStr ''Travel'']" and c = "reply_with (Inr PNone)"
        and delete_after_processing = "PBool False" and sent = "[]" and x = "PStr ''Travel''"
        and xs = "[]"]
    by simp
qed

text \<open>
  Claim C5, as stated: for a file with contents \<^verbatim>\<open>b\<close>, \<^verbatim>\<open>process_document\<close> sends
  \<^verbatim>\<open>"file_data"\<close> equal to the base64 encoding of \<^verbatim>\<open>b\<close>. It fails when the caller passes
  \<^verbatim>\<open>file_data\<close> among the additional keyword arguments:
  \<^verbatim>\<open>request_arguments.update(kwargs)\<close> runs after the field is set and replaces it.
\<close>

theorem file_data_overridden:
  "one_file ''r.jpg'' ''foo'' ''r.jpg'' = Some ''foo''
   \<and> b64encode ''foo'' = ''Zm9v''
   \<and> field ''file_data'' (sent_arguments (process_document (one_file ''r.jpg'' ''foo'')
        (reply_with (Inr PNone)) ''r.jpg'' PNone (PBool False) [(''file_data'', PStr ''other'')])
        []) = [Some (PStr ''other'')]"
  by (simp add: one_file_def b64_char_def observe_defs Let_def run_process_document
      dict_get_Cons)

text \<open>
  Claim C5, amended. For a file path whose contents are the bytes \<^verbatim>\<open>b\<close>,
  \<^verbatim>\<open>process_document\<close> sends a POST to \<^verbatim>\<open>/documents/\<close> and \<^verbatim>\<open>process_w9_document\<close>
  a POST to \<^verbatim>\<open>/w9s/\<close>; decoding the base64 encoding of \<^verbatim>\<open>b\<close> as UTF-8 never fails.
  The parameter mapping is the computed one (\<^verbatim>\<open>"file_name"\<close> the basename of the path,
  for \<^verbatim>\<open>process_w9_document\<close> the supplied \<^verbatim>\<open>file_name\<close> when there is one;
  \<^verbatim>\<open>"file_data"\<close> the base64 text) updated with the additional keyword arguments. So
  when these hold no \<^verbatim>\<open>"file_data"\<close>, respectively no \<^verbatim>\<open>"file_name"\<close>, the computed value
  is sent; and every entry they hold, under \<^verbatim>\<open>"file_data"\<close> or \<^verbatim>\<open>"file_name"\<close> as under
  any other key, is sent in place of the computed one.
\<close>

theorem file_upload_fields:
  assumes "fs file_path = Some image_bytes"
  shows "targets (process_document fs c file_path categories delete_after_processing kwargs) sent
           = [(''POST'', ''/documents/'')]
         \<and> targets (process_w9_document fs c file_path file_name kwargs) sent
           = [(''POST'', ''/w9s/'')]
         \<and> decode_utf8 (b64encode image_bytes) = Inr (b64encode image_bytes)
         \<and> (''file_data'' \<notin> set (dict_keys kwargs) \<longrightarrow>
              field ''file_data'' (sent_arguments
                (process_document fs c file_path categories delete_after_processing kwargs) sent)
                = [Some (PStr (b64encode image_bytes))]
              \<and> field ''file_data'' (sent_arguments
                (process_w9_document fs c file_path file_name kwargs) sent)
                = [Some (PStr (b64encode image_bytes))])
         \<and> (''file_name'' \<notin> set (dict_keys kwargs) \<longrightarrow>
              field ''file_name'' (sent_arguments
                (process_document fs c file_path categories delete_after_processing kwargs) sent)
                = [Some (PStr (basename file_path))]
              \<and> field ''file_name'' (sent_arguments
                (process_w9_document fs c file_path PNone kwargs) sent)
                = [Some (PStr (basename file_path))]
              \<and> (file_name \<noteq> PNone \<longrightarrow>
                field ''file_name'' (sent_arguments
                  (process_w9_document fs c file_path file_name kwargs) sent)
                  = [Some file_name]))
         \<and> sent_arguments
               (process_document fs c file_path categories delete_after_processing kwargs) sent
             = [dict_update
                  [(''file_name'', PStr (basename file_path)),
                   (''file_data'', PStr (b64encode image_bytes)),
                   (''categories'', if truthy categories then categories else PList CATEGORIES),
                   (''auto_delete'', delete_after_processing)]
                  kwargs]
         \<and> sent_arguments (process_w9_document fs c file_path file_name kwargs) sent
             = [dict_update
                  [(''file_name'',
                    if file_name = PNone then PStr (basename file_path) else file_name),
                   (''file_data'', PStr (b64encode image_bytes))]
                  kwargs]
         \<and> (distinct (dict_keys kwargs) \<longrightarrow>
              (\<forall>k v. dict_get kwargs k = Some v \<longrightarrow>
                 field k (sent_arguments
                   (process_document fs c file_path categories delete_after_processing kwargs)
                   sent) = [Some v]
                 \<and> field k (sent_arguments
                   (process_w9_document fs c file_path file_name kwargs) sent) = [Some v]))"
  using assms
  by (simp add: observe_defs Let_def run_process_document run_process_w9_document
      dict_get_dict_update_other dict_get_dict_update dict_get_Cons decode_b64encode)

theorem file_upload_fields_witness:
  "one_file ''scans/r.jpg'' ''foo'' ''scans/r.jpg'' = Some ''foo''
   \<and> ''file_data'' \<notin> set (dict_keys [(''file_name'', PStr ''custom.jpg'')])
   \<and> distinct (dict_keys [(''file_name'', PStr ''custom.jpg'')])
   \<and> dict_get [(''file_name'', PStr ''custom.jpg'')] ''file_name'' = Some (PStr ''custom.jpg'')
   \<and> targets (process_document (one_file ''scans/r.jpg'' ''foo'') (reply_with (Inr PNone))
        ''scans/r.jpg'' PNone (PBool False) [(''file_name'', PStr ''custom.jpg'')]) []
       = [(''POST'', ''/documents/'')]
   \<and> field ''file_data'' (sent_arguments (process_document (one_file ''scans/r.jpg'' ''foo'')
        (reply_with (Inr PNone)) ''scans/r.jpg'' PNone (PBool False)
        [(''file_name'', PStr ''custom.jpg'')]) []) = [Some (PStr ''Zm9v'')]
   \<and> field ''file_name'' (sent_arguments (process_document (one_file ''scans/r.jpg'' ''foo'')
        (reply_with (Inr PNone)) ''scans/r.jpg'' PNone (PBool False)
        [(''file_name'', PStr ''custom.jpg'')]) []) = [Some (PStr ''custom.jpg'')]
   \<and> ''file_name'' \<notin> set (dict_keys [(''boost_mode'', PInt 1)])
   \<and> field ''file_name'' (sent_arguments (process_document (one_file ''scans/r.jpg'' ''foo'')
        (reply_with (Inr PNone)) ''scans/r.jpg'' PNone (PBool False) [(''boost_mode'', PInt 1)])
        []) = [Some (PStr ''r.jpg'')]
   \<and> field ''file_name'' (sent_arguments (process_w9_document (one_file ''scans/r.jpg'' ''foo'')
        (reply_with (Inr PNone)) ''scans/r.jpg'' PNone [(''boost_mode'', PInt 1)]) [])
       = [Some (PStr ''r.jpg'')]"
proof -
  let ?fs = "one_file ''scans/r.jpg'' ''foo''"
  let ?c = "reply_with (Inr PNone)"
  let ?kw = "[(''file_name'', PStr ''custom.jpg'')]"
  have h: "?fs ''scans/r.jpg'' = Some ''foo''"
    by (simp add: one_file_def)
  have k: "''file_data'' \<notin> set (dict_keys ?kw)" "distinct (dict_keys ?kw)"
    "''file_name'' \<notin> set (dict_keys [(''boost_mode'', PInt 1)])"
    by (simp_all add: dict_keys_def)
  have g: "dict_get ?kw ''file_name'' = Some (PStr ''custom.jpg'')"
    by (simp add: dict_get_Cons)
  note t = file_upload_fields [where fs = ?fs and file_path = "''scans/r.jpg''" and image_bytes = "''foo''"
      and c = ?c and categories = PNone and delete_after_processing = "PBool False"
      and kwargs = ?kw and sent = "[]" and file_name = PNone]
  have r1: "field ''file_name'' (sent_arguments (process_document ?fs ?c ''scans/r.jpg'' PNone
      (PBool False) ?kw) []) = [Some (PStr ''custom.jpg'')]"
    using h k g t by blast
  have r2: "targets (process_document ?fs ?c ''scans/r.jpg'' PNone (PBool False) ?kw) []
      = [(''POST'', ''/documents/'')]
    \<and> field ''file_data'' (sent_arguments (process_document ?fs ?c ''scans/r.jpg'' PNone
      (PBool False) ?kw) []) = [Some (PStr (b64encode ''foo''))]"
    using h k t by blast
  show ?thesis
    using h k g r1 r2
      file_upload_fields [where fs = ?fs and file_path = "''scans/r.jpg''" and image_bytes = "''foo''"
        and c = ?c and categories = PNone and delete_after_processing = "PBool False"
        and kwargs = "[(''boost_mode'', PInt 1)]" and sent = "[]" and file_name = PNone]
    by (simp add: b64_char_def basename_def field_def dict_get_Cons)
qed




text \<open>
  Claim C2, as stated: an optional parameter that the caller does not supply has no entry
  in the parameter mapping, and \<^verbatim>\<open>process_document_url\<close> with only a \<^verbatim>\<open>file_url\<close>
  sends no keys for \<^verbatim>\<open>categories\<close>, \<^verbatim>\<open>external_id\<close>, \<^verbatim>\<open>file_urls\<close> or
  \<^verbatim>\<open>max_pages_to_process\<close>. It fails there: the mapping is a literal with all seven
  keys, and the four hold \<^verbatim>\<open>None\<close>.
\<close>

theorem process_document_url_sends_none:
  "sent_arguments (process_document_url (reply_with (Inr PNone))
      (PStr ''https://cdn.example.com/receipt.jpg'') PNone (PBool False) (PInt 0) PNone PNone
      PNone []) []
     = [[(''auto_delete'', PBool False), (''boost_mode'', PInt 0), (''categories'', PNone),
         (''external_id'', PNone), (''file_url'', PStr ''https://cdn.example.com/receipt.jpg''),
         (''file_urls'', PNone), (''max_pages_to_process'', PNone)]]"
  by (simp add: sent_arguments_def issued_def run_process_document_url Let_def)

text \<open>
  Claim C2, amended. \<^verbatim>\<open>get_documents\<close> passes an empty parameter mapping and puts its
  parameters in the endpoint: \<^verbatim>\<open>/documents/\<close>, followed, when \<^verbatim>\<open>request_params\<close> is not
  empty, by \<^verbatim>\<open>?\<close> and the entries \<^verbatim>\<open>name=value\<close> joined with \<^verbatim>\<open>&\<close>, one entry for
  each item of \<^verbatim>\<open>request_params\<close> and no other. \<^verbatim>\<open>request_params\<close> holds, in this
  order, those of \<^verbatim>\<open>q\<close>, \<^verbatim>\<open>external_id\<close>, \<^verbatim>\<open>tag\<close>, \<^verbatim>\<open>created__gt\<close>,
  \<^verbatim>\<open>created__gte\<close>, \<^verbatim>\<open>created__lt\<close>, \<^verbatim>\<open>created__lte\<close> whose value is truthy,
  updated with the additional keyword arguments; a parameter that is not supplied
  (\<^verbatim>\<open>None\<close>, or any falsy value) has no item there, hence no entry, unless the
  additional keyword arguments hold its wire name. \<^verbatim>\<open>process_document_url\<close> sends
  \<^verbatim>\<open>auto_delete\<close>, \<^verbatim>\<open>boost_mode\<close>, \<^verbatim>\<open>categories\<close>, \<^verbatim>\<open>external_id\<close>, \<^verbatim>\<open>file_url\<close>,
  \<^verbatim>\<open>file_urls\<close> and \<^verbatim>\<open>max_pages_to_process\<close> on every call, updated with the additional
  keyword arguments; a parameter that is not supplied is sent with the value it defaults
  to, \<^verbatim>\<open>None\<close> for \<^verbatim>\<open>categories\<close>, \<^verbatim>\<open>external_id\<close>, \<^verbatim>\<open>file_urls\<close> and
  \<^verbatim>\<open>max_pages_to_process\<close>.
\<close>

theorem unsupplied_parameters:
  assumes "params =
      dict_update
        (filter (\<lambda>kv. truthy (snd kv))
           [(''q'', q), (''external_id'', external_id), (''tag'', tag),
            (''created__gt'', created_gt), (''created__gte'', created_gte),
            (''created__lt'', created_lt), (''created__lte'', created_lte)])
        kwargs"
  shows "map endpoint_name (issued (get_documents c q external_id tag created_gt created_gte
           created_lt created_lte kwargs) sent) =
           [''/documents/'' @
              (if params = [] then []
               else ''?'' @ join ''&'' (map (\<lambda>(k, v). k @ ''='' @ py_str v) params))]
         \<and> sent_arguments (get_documents c q external_id tag created_gt created_gte created_lt
             created_lte kwargs) sent = [[]]
         \<and> (\<not> truthy q \<and> ''q'' \<notin> set (dict_keys kwargs) \<longrightarrow> ''q'' \<notin> set (dict_keys params))
         \<and> (\<not> truthy external_id \<and> ''external_id'' \<notin> set (dict_keys kwargs) \<longrightarrow>
              ''external_id'' \<notin> set (dict_keys params))
         \<and> (\<not> truthy tag \<and> ''tag'' \<notin> set (dict_keys kwargs) \<longrightarrow>
              ''tag'' \<notin> set (dict_keys params))
         \<and> (\<not> truthy created_gt \<and> ''created__gt'' \<notin> set (dict_keys kwargs) \<longrightarrow>
              ''created__gt'' \<notin> set (dict_keys params))
         \<and> (\<not> truthy created_gte \<and> ''created__gte'' \<notin> set (dict_keys kwargs) \<longrightarrow>
              ''created__gte'' \<notin> set (dict_keys params))
         \<and> (\<not> truthy created_lt \<and> ''created__lt'' \<notin> set (dict_keys kwargs) \<longrightarrow>
              ''created__lt'' \<notin> set (dict_keys params))
         \<and> (\<not> truthy created_lte \<and> ''created__lte'' \<notin> set (dict_keys kwargs) \<longrightarrow>
              ''created__lte'' \<notin> set (dict_keys params))
         \<and> sent_arguments (process_document_url c file_url categories delete_after_processing
             boost_mode external_id' max_pages_to_process file_urls kwargs') sent =
            [dict_update
               [(''auto_delete'', delete_after_processing), (''boost_mode'', boost_mode),
                (''categories'', categories), (''external_id'', external_id'),
                (''file_url'', file_url), (''file_urls'', file_urls),
                (''max_pages_to_process'', max_pages_to_process)]
               kwargs']
         \<and> (''categories'' \<notin> set (dict_keys kwargs') \<longrightarrow>
              field ''categories'' (sent_arguments (process_document_url c file_url categories
                delete_after_processing boost_mode external_id' max_pages_to_process file_urls
                kwargs') sent) = [Some categories])
         \<and> (''external_id'' \<notin> set (dict_keys kwargs') \<longrightarrow>
              field ''external_id'' (sent_arguments (process_document_url c file_url categories
                delete_after_processing boost_mode external_id' max_pages_to_process file_urls
                kwargs') sent) = [Some external_id'])
         \<and> (''file_urls'' \<notin> set (dict_keys kwargs') \<longrightarrow>
              field ''file_urls'' (sent_arguments (process_document_url c file_url categories
                delete_after_processing boost_mode external_id' max_pages_to_process file_urls
                kwargs') sent) = [Some file_urls])
         \<and> (''max_pages_to_process'' \<notin> set (dict_keys kwargs') \<longrightarrow>
              field ''max_pages_to_process'' (sent_arguments (process_document_url c file_url
                categories delete_after_processing boost_mode external_id' max_pages_to_process
                file_urls kwargs') sent) = [Some max_pages_to_process])"
proof -
  have p: "params = get_documents_params q external_id tag created_gt created_gte created_lt
      created_lte kwargs"
    by (simp add: assms get_documents_params_filter)
  have g: "map endpoint_name (issued (get_documents c q external_id tag created_gt created_gte
      created_lt created_lte kwargs) sent) =
      [''/documents/'' @
         (if params = [] then []
          else ''?'' @ join ''&'' (map (\<lambda>(k, v). k @ ''='' @ py_str v) params))]"
    by (simp add: issued_def run_get_documents Let_def p [symmetric]
        get_documents_endpoint_join)
  have a: "sent_arguments (get_documents c q external_id tag created_gt created_gte created_lt
      created_lte kwargs) sent = [[]]"
    by (simp add: sent_arguments_def issued_def run_get_documents Let_def)
  have k: "\<And>k. k \<notin> set (dict_keys kwargs) \<Longrightarrow>
      k \<in> set (dict_keys params) \<longleftrightarrow>
        (truthy created_lte \<and> k = ''created__lte'') \<or> (truthy created_lt \<and> k = ''created__lt'')
        \<or> (truthy created_gte \<and> k = ''created__gte'') \<or> (truthy created_gt \<and> k = ''created__gt'')
        \<or> (truthy tag \<and> k = ''tag'') \<or> (truthy external_id \<and> k = ''external_id'')
        \<or> (truthy q \<and> k = ''q'')"
    by (simp add: dict_key_iff p get_documents_params_get)
  have u: "sent_arguments (process_document_url c file_url categories delete_after_processing
      boost_mode external_id' max_pages_to_process file_urls kwargs') sent =
      [dict_update
         [(''auto_delete'', delete_after_processing), (''boost_mode'', boost_mode),
          (''categories'', categories), (''external_id'', external_id'),
          (''file_url'', file_url), (''file_urls'', file_urls),
          (''max_pages_to_process'', max_pages_to_process)]
         kwargs']"
    by (simp add: sent_arguments_def issued_def run_process_document_url Let_def)
  have f: "\<And>key. key \<notin> set (dict_keys kwargs') \<Longrightarrow>
      field key
        [dict_update
           [(''auto_delete'', delete_after_processing), (''boost_mode'', boost_mode),
            (''categories'', categories), (''external_id'', external_id'),
            (''file_url'', file_url), (''file_urls'', file_urls),
            (''max_pages_to_process'', max_pages_to_process)]
           kwargs'] =
      [dict_get [(''auto_delete'', delete_after_processing), (''boost_mode'', boost_mode),
          (''categories'', categories), (''external_id'', external_id'),
          (''file_url'', file_url), (''file_urls'', file_urls),
          (''max_pages_to_process'', max_pages_to_process)] key]"
    by (simp add: field_def dict_get_dict_update_other)
  show ?thesis
    using g a u by (simp add: k f dict_get_Cons)
qed

theorem unsupplied_parameters_witness:
  "\<not> truthy PNone
   \<and> ''tag'' \<notin> set (dict_keys [])
   \<and> ''tag'' \<notin> set (dict_keys [(''q'', PStr ''receipt'')])
   \<and> map endpoint_name (issued (get_documents (reply_with (Inr PNone)) (PStr ''receipt'') PNone
        PNone PNone PNone PNone PNone []) []) = [''/documents/?q=receipt'']
   \<and> map endpoint_name (issued (get_documents (reply_with (Inr PNone)) PNone PNone
        PNone PNone PNone PNone PNone []) []) = [''/documents/'']
   \<and> ''categories'' \<notin> set (dict_keys [])
   \<and> field ''categories'' (sent_arguments (process_document_url (reply_with (Inr PNone))
        (PStr ''https://cdn.example.com/receipt.jpg'') PNone (PBool False) (PInt 0) PNone PNone
        PNone []) []) = [Some PNone]"
proof -
  have h: "[(''q'', PStr ''receipt'')] =
      dict_update
        (filter (\<lambda>kv. truthy (snd kv))
           [(''q'', PStr ''receipt''), (''external_id'', PNone), (''tag'', PNone),
            (''created__gt'', PNone), (''created__gte'', PNone),
            (''created__lt'', PNone), (''created__lte'', PNone)])
        []"
    by simp
  have h0: "[] =
      dict_update
        (filter (\<lambda>kv. truthy (snd kv))
           [(''q'', PNone), (''external_id'', PNone), (''tag'', PNone),
            (''created__gt'', PNone), (''created__gte'', PNone),
            (''created__lt'', PNone), (''created__lte'', PNone)])
        []"
    by simp
  have n: "''tag'' \<notin> set (dict_keys [])" "''categories'' \<notin> set (dict_keys [])"
    by (simp_all add: dict_keys_def)
  show ?thesis
    using n
      unsupplied_parameters [OF h, where c = "reply_with (Inr PNone)" and sent = "[]"
        and file_url = "PStr ''https://cdn.example.com/receipt.jpg''" and categories = PNone
        and delete_after_processing = "PBool False" and boost_mode = "PInt 0"
        and external_id' = PNone and max_pages_to_process = PNone and file_urls = PNone
        and kwargs' = "[]"]
      unsupplied_parameters [OF h0, where c = "reply_with (Inr PNone)" and sent = "[]", THEN conjunct1]
    by (simp add: py_str_def field_def dict_get_Cons)
qed

end
